theory Spec2Isabelle
  imports Main "HOL-Library.Sublist" "HOL-Library.Word"
begin

section \<open>Exceptions (errors.py)\<close>

text \<open>
  The exception classes of \<^verbatim>\<open>errors.py\<close>, together with the two builtin exceptions that
  the calls of the service can raise on their arguments: \<^verbatim>\<open>KeyError\<close> (a subscript on a
  dictionary) and \<^verbatim>\<open>ValueError\<close> (\<^verbatim>\<open>time.sleep\<close> on a negative length). An exception
  value carries its class and its message; for \<^verbatim>\<open>KeyError\<close> the message slot holds the
  missing key.
\<close>

datatype exn_class =
    FTDCError
  | ReplicaSetNotFoundError
  | JobCreationError
  | JobStatusError
  | DownloadError
  | AuthenticationError
  | KeyError
  | ValueError

datatype exn = Exn (cls: exn_class) (msg: string)

text \<open>
  The direct superclass inside the repository: \<^verbatim>\<open>FTDCError(Exception)\<close> and the builtin
  \<^verbatim>\<open>KeyError\<close> and \<^verbatim>\<open>ValueError\<close> have none; every other class is declared \<^verbatim>\<open>class X(FTDCError)\<close>.
\<close>

fun superclass :: "exn_class \<Rightarrow> exn_class option" where
  "superclass FTDCError = None"
| "superclass KeyError = None"
| "superclass ValueError = None"
| "superclass ReplicaSetNotFoundError = Some FTDCError"
| "superclass JobCreationError = Some FTDCError"
| "superclass JobStatusError = Some FTDCError"
| "superclass DownloadError = Some FTDCError"
| "superclass AuthenticationError = Some FTDCError"

text \<open>\<^verbatim>\<open>isinstance(e, FTDCError)\<close>, the test of \<^verbatim>\<open>except FTDCError\<close> in cli.py.\<close>

definition is_FTDCError :: "exn \<Rightarrow> bool" where
  "is_FTDCError e = (cls e = FTDCError \<or> superclass (cls e) = Some FTDCError)"

section \<open>Python primitives used by the service\<close>

text \<open>\<^verbatim>\<open>str(n)\<close> for an integer, as the f-strings format a status code.\<close>

definition digit_char :: "nat \<Rightarrow> char" where
  "digit_char d = char_of (48 + d)"

function str_nat :: "nat \<Rightarrow> string" where
  "str_nat n = (if n < 10 then [digit_char n] else str_nat (n div 10) @ [digit_char (n mod 10)])"
  by pat_completeness auto
termination
  by (relation "measure (\<lambda>n. n)") auto

declare str_nat.simps [simp del]

definition str_int :: "int \<Rightarrow> string" where
  "str_int i = (if i < 0 then ''-'' @ str_nat (nat (- i)) else str_nat (nat i))"

text \<open>\<^verbatim>\<open>needle in hay\<close> on two strings: \<open>needle\<close> occurs in \<open>hay\<close> as a contiguous run.\<close>

definition str_in :: "string \<Rightarrow> string \<Rightarrow> bool" where
  "str_in needle hay = sublist needle hay"

text \<open>Truth value of an \<^verbatim>\<open>Optional[str]\<close>: \<^verbatim>\<open>None\<close> and the empty string are false.\<close>

fun truthy :: "string option \<Rightarrow> bool" where
  "truthy None = False"
| "truthy (Some s) = (s \<noteq> [])"

text \<open>\<^verbatim>\<open>d.get(k, default)\<close> and \<^verbatim>\<open>d[k]\<close> on a dictionary with string keys.\<close>

definition dict_get :: "(string \<rightharpoonup> 'v) \<Rightarrow> string \<Rightarrow> 'v \<Rightarrow> 'v" where
  "dict_get d k dflt = (case d k of None \<Rightarrow> dflt | Some v \<Rightarrow> v)"

definition dict_subscript :: "(string \<rightharpoonup> 'v) \<Rightarrow> string \<Rightarrow> exn + 'v" where
  "dict_subscript d k = (case d k of None \<Rightarrow> Inl (Exn KeyError k) | Some v \<Rightarrow> Inr v)"

section \<open>Data models (models.py)\<close>

datatype JobState = SUCCESS | FAILURE | IN_PROGRESS | MARKED_FOR_EXPIRY | EXPIRED

fun JobState_value :: "JobState \<Rightarrow> string" where
  "JobState_value SUCCESS = ''SUCCESS''"
| "JobState_value FAILURE = ''FAILURE''"
| "JobState_value IN_PROGRESS = ''IN_PROGRESS''"
| "JobState_value MARKED_FOR_EXPIRY = ''MARKED_FOR_EXPIRY''"
| "JobState_value EXPIRED = ''EXPIRED''"

record Shard =
  user_alias :: string
  type_name :: string
  replica_set_name :: "string option"

datatype JobId = JobId (id_of: string)

datatype json_value = JString string | JBool bool | JInt int | JStrings "string list"

record LogCollectionJob =
  resource_type :: string
  resource_name :: string
  redacted :: bool
  size_requested_per_file_bytes :: int
  log_types :: "string list"

definition LogCollectionJob_create :: "string \<Rightarrow> int \<Rightarrow> LogCollectionJob" where
  "LogCollectionJob_create replica_set byte_size =
     \<lparr> resource_type = ''REPLICASET'',
       resource_name = replica_set,
       redacted = True,
       size_requested_per_file_bytes = byte_size,
       log_types = [''FTDC''] \<rparr>"

section \<open>The HTTP session and the outside world\<close>

text \<open>
  A response of the \<^verbatim>\<open>requests\<close> library: its status code, its text, and its content.
  The content is taken as already decoded, the way the calling method reads it.
  \<^verbatim>\<open>response.json()\<close> gives a dictionary: for the process list, a dictionary whose values
  are lists of objects with string fields; for the job endpoints, an object with string
  fields. A key may be absent; a body that is not JSON, or a field of another JSON type,
  is outside the model. \<^verbatim>\<open>response.iter_content(chunk_size=8192)\<close> gives the list of the
  chunks of the body.
\<close>

record 'a response =
  status_code :: int
  text' :: string
  content :: 'a

type_synonym json_obj = "string \<rightharpoonup> string"
type_synonym bytes = "8 word list"

datatype request =
    GET string
  | GET_stream string
  | POST string "(string \<times> json_value) list" "(string \<times> string) list"

text \<open>
  Everything the service does to the outside, in the order it does it: requests sent,
  \<^verbatim>\<open>time.sleep\<close> calls and lines printed. The files on disk are a map from a path to
  the bytes of the file.
\<close>

datatype event = Request request | Sleep int | Print string

text \<open>
  A \<^verbatim>\<open>pathlib.Path\<close>, kept symbolic: a path given by the caller, or \<^verbatim>\<open>parent / name\<close>.
\<close>

datatype path = Path string | Div path string

record world =
  trace :: "event list"
  files :: "path \<rightharpoonup> bytes"

fun is_Request :: "event \<Rightarrow> bool" where
  "is_Request (Request _) = True"
| "is_Request _ = False"

fun is_Sleep :: "event \<Rightarrow> bool" where
  "is_Sleep (Sleep _) = True"
| "is_Sleep _ = False"

text \<open>
  The number of requests sent so far. The session (with its fixed credentials,
  \<^verbatim>\<open>auth=self.auth\<close>) is a function from that number and the request to the response, so
  that the same request can be answered differently each time it is repeated.
\<close>

definition nreq :: "world \<Rightarrow> nat" where
  "nreq w = length (filter is_Request (trace w))"

definition send :: "request \<Rightarrow> world \<Rightarrow> world" where
  "send r w = w\<lparr>trace := trace w @ [Request r]\<rparr>"

text \<open>
  \<^verbatim>\<open>time.sleep(secs)\<close> raises \<^verbatim>\<open>ValueError\<close> on a negative length and waits otherwise
  (a length beyond what the platform clock can hold is outside the model).
\<close>

definition sleep :: "int \<Rightarrow> world \<Rightarrow> exn + world" where
  "sleep secs w =
     (if secs < 0 then Inl (Exn ValueError ''sleep length must be non-negative'')
      else Inr (w\<lparr>trace := trace w @ [Sleep secs]\<rparr>))"

definition print :: "string \<Rightarrow> world \<Rightarrow> world" where
  "print s w = w\<lparr>trace := trace w @ [Print s]\<rparr>"

definition MONGODB_API_BASE_URL :: string where
  "MONGODB_API_BASE_URL = ''https://cloud.mongodb.com/api/atlas/v1.0/groups''"

section \<open>FTDCService.get_replica_set\<close>

text \<open>The list comprehension building the \<^verbatim>\<open>Shard\<close> values from the response.\<close>

definition shards_of :: "(string \<rightharpoonup> json_obj list) \<Rightarrow> Shard list" where
  "shards_of data =
     map (\<lambda>result. \<lparr> user_alias = dict_get result ''userAlias'' '''',
                      type_name = dict_get result ''typeName'' '''',
                      replica_set_name = result ''replicaSetName'' \<rparr>)
         (dict_get data ''results'' [])"

text \<open>
  The condition of the filter:
  \<^verbatim>\<open>(shard.replica_set_name and name in shard.replica_set_name) or name in shard.user_alias\<close>.
\<close>

definition shard_matches :: "string \<Rightarrow> Shard \<Rightarrow> bool" where
  "shard_matches name shard =
     ((case replica_set_name shard of
         None \<Rightarrow> False
       | Some rs \<Rightarrow> truthy (Some rs) \<and> str_in name rs)
      \<or> str_in name (user_alias shard))"

definition processes_url :: "string \<Rightarrow> string" where
  "processes_url group_key = MONGODB_API_BASE_URL @ ''/'' @ group_key @ ''/processes''"

definition get_replica_set ::
  "(nat \<Rightarrow> request \<Rightarrow> (string \<rightharpoonup> json_obj list) response) \<Rightarrow> string \<Rightarrow> string \<Rightarrow> world
     \<Rightarrow> world \<times> (exn + string)" where
  "get_replica_set session group_key name w =
     (let url = processes_url group_key;
          response = session (nreq w) (GET url);
          w1 = send (GET url) w
      in if status_code response \<noteq> 200 then
           (w1, Inl (Exn ReplicaSetNotFoundError
              (''Failed to get processes. Status: '' @ str_int (status_code response)
                 @ '', Response: '' @ text' response)))
         else
           let data = content response;
               shards = shards_of data;
               matching_shards = filter (shard_matches name) shards
           in case matching_shards of
                [] \<Rightarrow> (w1, Inl (Exn ReplicaSetNotFoundError
                         (''No replica set found that corresponds to '' @ name)))
              | first_shard # _ \<Rightarrow>
                  (if truthy (replica_set_name first_shard) then
                     (case replica_set_name first_shard of
                        Some rs \<Rightarrow> (w1, Inr rs)
                      | None \<Rightarrow> (w1, Inl (Exn ReplicaSetNotFoundError
                          (''Replica set name not found in matching shard: ''
                             @ user_alias first_shard))))
                   else (w1, Inl (Exn ReplicaSetNotFoundError
                          (''Replica set name not found in matching shard: ''
                             @ user_alias first_shard)))))"

section \<open>FTDCService.create_ftdc_job\<close>

definition jobs_url :: "string \<Rightarrow> string" where
  "jobs_url group_key = MONGODB_API_BASE_URL @ ''/'' @ group_key @ ''/logCollectionJobs''"

definition job_payload :: "LogCollectionJob \<Rightarrow> (string \<times> json_value) list" where
  "job_payload job =
     [(''resourceType'', JString (resource_type job)),
      (''resourceName'', JString (resource_name job)),
      (''redacted'', JBool (redacted job)),
      (''sizeRequestedPerFileBytes'', JInt (size_requested_per_file_bytes job)),
      (''logTypes'', JStrings (log_types job))]"

definition create_request :: "string \<Rightarrow> string \<Rightarrow> int \<Rightarrow> request" where
  "create_request group_key replica_set byte_size =
     POST (jobs_url group_key)
          (job_payload (LogCollectionJob_create replica_set byte_size))
          [(''Content-Type'', ''application/json; charset=utf-8'')]"

definition create_ftdc_job ::
  "(nat \<Rightarrow> request \<Rightarrow> json_obj response) \<Rightarrow> string \<Rightarrow> string \<Rightarrow> int \<Rightarrow> world
     \<Rightarrow> world \<times> (exn + JobId)" where
  "create_ftdc_job session group_key replica_set byte_size w =
     (let req = create_request group_key replica_set byte_size;
          response = session (nreq w) req;
          w1 = send req w
      in if status_code response \<noteq> 201 then
           (w1, Inl (Exn JobCreationError
              (''Failed to create FTDC job. Status: '' @ str_int (status_code response)
                 @ '', Response: '' @ text' response)))
         else
           let data = content response
           in case dict_subscript data ''id'' of
                Inl e \<Rightarrow> (w1, Inl e)
              | Inr v \<Rightarrow> (w1, Inr (JobId v)))"

section \<open>FTDCService.check_job_state\<close>

definition job_url :: "string \<Rightarrow> string \<Rightarrow> string" where
  "job_url group_key job_id =
     MONGODB_API_BASE_URL @ ''/'' @ group_key @ ''/logCollectionJobs/'' @ job_id"

text \<open>
  The \<^verbatim>\<open>while True\<close> loop. It has no bound, so it is a partial function: the value
  \<open>None\<close> stands for a loop that never leaves.
\<close>

partial_function (option) check_job_state_loop ::
  "(nat \<Rightarrow> request \<Rightarrow> json_obj response) \<Rightarrow> string \<Rightarrow> string \<Rightarrow> int \<Rightarrow> world
     \<Rightarrow> (world \<times> (exn + string)) option" where
  "check_job_state_loop session url job_id poll_interval w =
     (let response = session (nreq w) (GET url);
          w1 = send (GET url) w
      in if status_code response \<noteq> 200 then
           Some (w1, Inl (Exn JobStatusError
              (''Failed to check job status. Status: '' @ str_int (status_code response)
                 @ '', Response: '' @ text' response)))
         else
           let data = content response;
               status = dict_get data ''status'' ''''
           in if status = JobState_value IN_PROGRESS then
                (case sleep poll_interval
                        (print (''Job '' @ job_id @ '' is still in progress...'') w1) of
                   Inl e \<Rightarrow> Some (print (''Job '' @ job_id @ '' is still in progress...'') w1, Inl e)
                 | Inr w2 \<Rightarrow> check_job_state_loop session url job_id poll_interval w2)
              else if status = JobState_value SUCCESS
                      \<or> status = JobState_value MARKED_FOR_EXPIRY then
                Some (print (''Job '' @ job_id @ '' completed successfully!'') w1,
                      Inr (dict_get data ''downloadUrl'' ''''))
              else if status = JobState_value FAILURE \<or> status = JobState_value EXPIRED then
                Some (w1, Inl (Exn JobStatusError
                   (''Job '' @ job_id @ '' failed with status: '' @ status)))
              else
                Some (w1, Inl (Exn JobStatusError (''Unknown job status: '' @ status))))"

text \<open>The method builds the URL once and enters the loop.\<close>

definition check_job_state ::
  "(nat \<Rightarrow> request \<Rightarrow> json_obj response) \<Rightarrow> string \<Rightarrow> string \<Rightarrow> int \<Rightarrow> world
     \<Rightarrow> (world \<times> (exn + string)) option" where
  "check_job_state session group_key job_id poll_interval w =
     check_job_state_loop session (job_url group_key job_id) job_id poll_interval w"

text \<open>The default of the parameter, \<^verbatim>\<open>poll_interval: int = 3\<close>.\<close>

definition default_poll_interval :: int where
  "default_poll_interval = 3"

section \<open>FTDCService.download_ftdc_data\<close>

definition download_url :: "string \<Rightarrow> string \<Rightarrow> string" where
  "download_url group_key job_id =
     MONGODB_API_BASE_URL @ ''/'' @ group_key @ ''/logCollectionJobs/'' @ job_id @ ''/download''"

text \<open>
  \<^verbatim>\<open>open(file_path, "wb")\<close> creates the file or empties it; \<^verbatim>\<open>f.write(chunk)\<close> appends.
  Opening and writing are taken to succeed: the failures of the disk and of the stream
  are outside this model.
\<close>

definition open_wb :: "path \<Rightarrow> world \<Rightarrow> world" where
  "open_wb p w = w\<lparr>files := (files w)(p \<mapsto> [])\<rparr>"

definition file_bytes :: "(path \<rightharpoonup> bytes) \<Rightarrow> path \<Rightarrow> bytes" where
  "file_bytes fs p = (case fs p of None \<Rightarrow> [] | Some b \<Rightarrow> b)"

definition f_write :: "path \<Rightarrow> bytes \<Rightarrow> world \<Rightarrow> world" where
  "f_write p chunk w = w\<lparr>files := (files w)(p \<mapsto> file_bytes (files w) p @ chunk)\<rparr>"

definition download_ftdc_data ::
  "(nat \<Rightarrow> request \<Rightarrow> (bytes list) response) \<Rightarrow> string \<Rightarrow> string \<Rightarrow> string \<Rightarrow> path \<Rightarrow> world
     \<Rightarrow> world \<times> (exn + path)" where
  "download_ftdc_data session group_key job_id replica_set output_dir w =
     (let url = download_url group_key job_id;
          response = session (nreq w) (GET_stream url);
          w1 = send (GET_stream url) w
      in if status_code response \<noteq> 200 then
           (w1, Inl (Exn DownloadError
              (''Failed to download FTDC data. Status: '' @ str_int (status_code response)
                 @ '', URL: '' @ url)))
         else
           let filename = ''ftdc_data_'' @ replica_set @ ''_job_'' @ job_id @ ''.tar.gz'';
               file_path = Div output_dir filename;
               w2 = print (''Downloading FTDC data for job '' @ job_id @ ''...'') w1;
               w3 = open_wb file_path w2;
               w4 = fold (f_write file_path) (content response) w3;
               w5 = print ''Download complete!'' w4
           in (w5, Inr file_path))"

section \<open>Vocabulary of the properties\<close>

text \<open>
  What a status query shows: the \<^verbatim>\<open>status\<close> field of the response, the empty string when
  the field is absent, as \<^verbatim>\<open>data.get("status", "")\<close> reads it.
\<close>

definition job_status :: "json_obj response \<Rightarrow> string" where
  "job_status r = dict_get (content r) ''status'' ''''"

text \<open>The query succeeded and the job is still running: the loop goes round once more.\<close>

definition in_progress :: "json_obj response \<Rightarrow> bool" where
  "in_progress r = (status_code r = 200 \<and> job_status r = JobState_value IN_PROGRESS)"

text \<open>The values of the five members of \<^verbatim>\<open>JobState\<close>.\<close>

definition known_states :: "string set" where
  "known_states =
     set (map JobState_value [SUCCESS, FAILURE, IN_PROGRESS, MARKED_FOR_EXPIRY, EXPIRED])"

text \<open>
  The three failure conditions of the poller as the specification lists them: the query
  failed, the state is a terminal failure, or the state is not a known one.
\<close>

definition job_failed :: "json_obj response \<Rightarrow> bool" where
  "job_failed r =
     (status_code r \<noteq> 200
      \<or> job_status r \<in> {JobState_value FAILURE, JobState_value EXPIRED}
      \<or> job_status r \<notin> known_states)"

definition job_succeeded :: "json_obj response \<Rightarrow> bool" where
  "job_succeeded r =
     (status_code r = 200
      \<and> job_status r \<in> {JobState_value SUCCESS, JobState_value MARKED_FOR_EXPIRY})"

text \<open>The response to the \<open>i\<close>-th status query of a poll that starts in world \<open>w\<close>.\<close>

definition observed ::
  "(nat \<Rightarrow> request \<Rightarrow> json_obj response) \<Rightarrow> string \<Rightarrow> string \<Rightarrow> world \<Rightarrow> nat
     \<Rightarrow> json_obj response" where
  "observed session group_key job_id w i =
     session (nreq w + i) (GET (job_url group_key job_id))"

text \<open>
  What one turn of the loop on an \<^verbatim>\<open>IN_PROGRESS\<close> job leaves in the trace: the query, the
  progress line and the wait.
\<close>

definition poll_round :: "string \<Rightarrow> string \<Rightarrow> int \<Rightarrow> event list" where
  "poll_round url job_id poll_interval =
     [Request (GET url),
      Print (''Job '' @ job_id @ '' is still in progress...''),
      Sleep poll_interval]"

definition one_round :: "string \<Rightarrow> string \<Rightarrow> int \<Rightarrow> world \<Rightarrow> world" where
  "one_round url job_id poll_interval w =
     w\<lparr>trace := trace w @ poll_round url job_id poll_interval\<rparr>"

definition after_rounds :: "nat \<Rightarrow> string \<Rightarrow> string \<Rightarrow> int \<Rightarrow> world \<Rightarrow> world" where
  "after_rounds k url job_id poll_interval w =
     w\<lparr>trace := trace w @ concat (replicate k (poll_round url job_id poll_interval))\<rparr>"

definition success_line :: "string \<Rightarrow> event" where
  "success_line job_id = Print (''Job '' @ job_id @ '' completed successfully!'')"

section \<open>Example sessions\<close>

text \<open>A fresh world: nothing sent, nothing printed, no file on disk.\<close>

definition w0 :: world where
  "w0 = \<lparr> trace = [], files = Map.empty \<rparr>"

text \<open>
  A process list of three records. The second is the first whose name contains
  \<^verbatim>\<open>shard-00\<close>; the third matches too, and exactly.
\<close>

definition example_processes :: "nat \<Rightarrow> request \<Rightarrow> (string \<rightharpoonup> json_obj list) response" where
  "example_processes n r =
     \<lparr> status_code = 200, text' = '''',
       content = [''results'' \<mapsto>
         [[''userAlias'' \<mapsto> ''atlas-config-00-0'', ''typeName'' \<mapsto> ''SHARD_CONFIG_PRIMARY'',
           ''replicaSetName'' \<mapsto> ''atlas-config-0''],
          [''userAlias'' \<mapsto> ''atlas-shard-00-0'', ''typeName'' \<mapsto> ''REPLICA_PRIMARY'',
           ''replicaSetName'' \<mapsto> ''atlas-shard-00''],
          [''userAlias'' \<mapsto> ''shard-00'', ''typeName'' \<mapsto> ''REPLICA_SECONDARY'',
           ''replicaSetName'' \<mapsto> ''shard-00'']]] \<rparr>"

text \<open>
  A process list whose first matching record has no \<^verbatim>\<open>replicaSetName\<close>, followed by a
  matching record that has one.
\<close>

definition example_incomplete :: "nat \<Rightarrow> request \<Rightarrow> (string \<rightharpoonup> json_obj list) response" where
  "example_incomplete n r =
     \<lparr> status_code = 200, text' = '''',
       content = [''results'' \<mapsto>
         [[''userAlias'' \<mapsto> ''atlas-shard-00-0'', ''typeName'' \<mapsto> ''REPLICA_PRIMARY''],
          [''userAlias'' \<mapsto> ''atlas-shard-00-1'', ''typeName'' \<mapsto> ''REPLICA_SECONDARY'',
           ''replicaSetName'' \<mapsto> ''atlas-shard-00'']]] \<rparr>"

definition example_unavailable :: "nat \<Rightarrow> request \<Rightarrow> (string \<rightharpoonup> json_obj list) response" where
  "example_unavailable n r =
     \<lparr> status_code = 503, text' = ''Service Unavailable'', content = Map.empty \<rparr>"

definition example_rejected :: "nat \<Rightarrow> request \<Rightarrow> json_obj response" where
  "example_rejected n r =
     \<lparr> status_code = 400, text' = ''Bad Request'', content = Map.empty \<rparr>"

definition example_created_no_id :: "nat \<Rightarrow> request \<Rightarrow> json_obj response" where
  "example_created_no_id n r =
     \<lparr> status_code = 201, text' = '''', content = [''status'' \<mapsto> ''IN_PROGRESS''] \<rparr>"

text \<open>A job that is in progress at the first query and done at every later one.\<close>

definition example_status :: "nat \<Rightarrow> request \<Rightarrow> json_obj response" where
  "example_status n r =
     (if n = 0 then
        \<lparr> status_code = 200, text' = '''',
          content = [''id'' \<mapsto> ''job123'', ''status'' \<mapsto> ''IN_PROGRESS''] \<rparr>
      else
        \<lparr> status_code = 200, text' = '''',
          content = [''id'' \<mapsto> ''job123'', ''status'' \<mapsto> ''SUCCESS'',
                     ''downloadUrl'' \<mapsto> ''https://cloud.mongodb.com/dl''] \<rparr>)"

definition example_denied :: "nat \<Rightarrow> request \<Rightarrow> (bytes list) response" where
  "example_denied n r = \<lparr> status_code = 404, text' = ''Not Found'', content = [] \<rparr>"

definition example_stream :: "nat \<Rightarrow> request \<Rightarrow> (bytes list) response" where
  "example_stream n r = \<lparr> status_code = 200, text' = '''', content = [[31, 139], [8]] \<rparr>"

section \<open>Evaluating the examples\<close>

text \<open>The status codes of the example responses, as the messages print them.\<close>

lemma str_int_503: "str_int 503 = ''503''" by code_simp

lemma str_int_400: "str_int 400 = ''400''" by code_simp

lemma str_int_404: "str_int 404 = ''404''" by code_simp

section \<open>The resolver takes the first match\<close>

lemma filter_first_match:
  "\<forall>x\<in>set pre. \<not> P x \<Longrightarrow> P s \<Longrightarrow> filter P (pre @ s # post) = s # filter P post"
  by (induction pre) auto

text \<open>
  The filter condition in words: the record has a non-empty replica set name that contains
  the candidate as a contiguous run, or its alias contains the candidate.
\<close>

lemma shard_matches_iff:
  "shard_matches name s \<longleftrightarrow>
     (\<exists>g. replica_set_name s = Some g \<and> g \<noteq> [] \<and> (\<exists>ps ss. g = ps @ name @ ss))
     \<or> (\<exists>ps ss. user_alias s = ps @ name @ ss)"
  by (cases "replica_set_name s") (simp_all add: shard_matches_def str_in_def sublist_def)

text \<open>
  Claim C1. Take any process list that the list endpoint returns with status 200 and any
  candidate name. If the record \<open>s\<close> is the first one in list order that matches (no record
  before it matches) and its replica set name \<open>g\<close> is non-empty, then the resolver returns
  \<open>g\<close>, whatever records follow \<open>s\<close>, matching or not.
\<close>

theorem resolve_returns_first_match:
  assumes ok: "status_code (session (nreq w) (GET (processes_url group_key))) = 200"
      and decomp: "shards_of (content (session (nreq w) (GET (processes_url group_key)))) = pre @ s # post"
      and before: "\<forall>x\<in>set pre. \<not> shard_matches name x"
      and hit: "shard_matches name s"
      and named: "replica_set_name s = Some g" "g \<noteq> []"
    shows "get_replica_set session group_key name w = (send (GET (processes_url group_key)) w, Inr g)"
proof -
  have "filter (shard_matches name)
          (shards_of (content (session (nreq w) (GET (processes_url group_key)))))
        = s # filter (shard_matches name) post"
    unfolding decomp using before hit by (rule filter_first_match)
  then show ?thesis
    using ok named by (simp add: get_replica_set_def Let_def)
qed

theorem resolve_returns_first_match_witness:
  "get_replica_set example_processes ''g1'' ''shard-00'' w0 =
     (send (GET (processes_url ''g1'')) w0, Inr ''atlas-shard-00'')"
  using resolve_returns_first_match
    [of example_processes w0 "''g1''"
        "[\<lparr>user_alias = ''atlas-config-00-0'', type_name = ''SHARD_CONFIG_PRIMARY'',
            replica_set_name = Some ''atlas-config-0''\<rparr>]"
        "\<lparr>user_alias = ''atlas-shard-00-0'', type_name = ''REPLICA_PRIMARY'',
           replica_set_name = Some ''atlas-shard-00''\<rparr>"
        "[\<lparr>user_alias = ''shard-00'', type_name = ''REPLICA_SECONDARY'',
            replica_set_name = Some ''shard-00''\<rparr>]"
        "''shard-00''" "''atlas-shard-00''"]
  by (simp add: example_processes_def shards_of_def dict_get_def shard_matches_def str_in_def
        sublist_Cons_right)

text \<open>
  Claim C2. If the first matching record \<open>s\<close> has no replica set name (the field is absent
  or empty), the resolver raises \<^verbatim>\<open>ReplicaSetNotFoundError\<close> naming that record, whatever
  records follow it: a later matching record that does have a name is never used.
\<close>

theorem resolve_fails_on_incomplete_first_match:
  assumes ok: "status_code (session (nreq w) (GET (processes_url group_key))) = 200"
      and decomp: "shards_of (content (session (nreq w) (GET (processes_url group_key)))) = pre @ s # post"
      and before: "\<forall>x\<in>set pre. \<not> shard_matches name x"
      and hit: "shard_matches name s"
      and unnamed: "replica_set_name s = None \<or> replica_set_name s = Some []"
    shows "get_replica_set session group_key name w =
             (send (GET (processes_url group_key)) w,
              Inl (Exn ReplicaSetNotFoundError
                   (''Replica set name not found in matching shard: '' @ user_alias s)))"
proof -
  have "filter (shard_matches name)
          (shards_of (content (session (nreq w) (GET (processes_url group_key)))))
        = s # filter (shard_matches name) post"
    unfolding decomp using before hit by (rule filter_first_match)
  then show ?thesis
    using ok unnamed by (auto simp add: get_replica_set_def Let_def)
qed

theorem resolve_fails_on_incomplete_first_match_witness:
  "get_replica_set example_incomplete ''g1'' ''shard-00'' w0 =
     (send (GET (processes_url ''g1'')) w0,
      Inl (Exn ReplicaSetNotFoundError
            ''Replica set name not found in matching shard: atlas-shard-00-0''))"
  using resolve_fails_on_incomplete_first_match
    [of example_incomplete w0 "''g1''" "[]"
        "\<lparr>user_alias = ''atlas-shard-00-0'', type_name = ''REPLICA_PRIMARY'',
           replica_set_name = None\<rparr>"
        "[\<lparr>user_alias = ''atlas-shard-00-1'', type_name = ''REPLICA_SECONDARY'',
            replica_set_name = Some ''atlas-shard-00''\<rparr>]"
        "''shard-00''"]
  by (simp add: example_incomplete_def shards_of_def dict_get_def shard_matches_def str_in_def
        sublist_Cons_right)

text \<open>
  Claim C10. Whenever the list endpoint answers with a status other than 200, the resolver
  raises \<^verbatim>\<open>ReplicaSetNotFoundError\<close> (with the status and the response text in the message);
  this is the class it also raises when the query succeeds and no record matches.
\<close>

theorem resolve_list_query_failure:
  "(status_code (session (nreq w) (GET (processes_url group_key))) \<noteq> 200 \<longrightarrow>
      get_replica_set session group_key name w =
        (send (GET (processes_url group_key)) w,
         Inl (Exn ReplicaSetNotFoundError
               (''Failed to get processes. Status: ''
                  @ str_int (status_code (session (nreq w) (GET (processes_url group_key))))
                  @ '', Response: '' @ text' (session (nreq w) (GET (processes_url group_key)))))))
   \<and> (status_code (session (nreq w) (GET (processes_url group_key))) = 200
        \<and> (\<forall>x\<in>set (shards_of (content (session (nreq w) (GET (processes_url group_key))))).
               \<not> shard_matches name x) \<longrightarrow>
      get_replica_set session group_key name w =
        (send (GET (processes_url group_key)) w,
         Inl (Exn ReplicaSetNotFoundError (''No replica set found that corresponds to '' @ name))))"
proof (intro conjI impI)
  assume "status_code (session (nreq w) (GET (processes_url group_key))) \<noteq> 200"
  then show "get_replica_set session group_key name w =
        (send (GET (processes_url group_key)) w,
         Inl (Exn ReplicaSetNotFoundError
               (''Failed to get processes. Status: ''
                  @ str_int (status_code (session (nreq w) (GET (processes_url group_key))))
                  @ '', Response: '' @ text' (session (nreq w) (GET (processes_url group_key))))))"
    by (simp add: get_replica_set_def Let_def)
next
  assume a: "status_code (session (nreq w) (GET (processes_url group_key))) = 200
        \<and> (\<forall>x\<in>set (shards_of (content (session (nreq w) (GET (processes_url group_key))))).
               \<not> shard_matches name x)"
  then have "filter (shard_matches name)
      (shards_of (content (session (nreq w) (GET (processes_url group_key))))) = []"
    by (simp add: filter_empty_conv)
  with a show "get_replica_set session group_key name w =
        (send (GET (processes_url group_key)) w,
         Inl (Exn ReplicaSetNotFoundError (''No replica set found that corresponds to '' @ name)))"
    by (simp add: get_replica_set_def Let_def)
qed

theorem resolve_list_query_failure_witness:
  "get_replica_set example_unavailable ''g1'' ''shard-00'' w0 =
     (send (GET (processes_url ''g1'')) w0,
      Inl (Exn ReplicaSetNotFoundError
            ''Failed to get processes. Status: 503, Response: Service Unavailable''))"
  using resolve_list_query_failure [of example_unavailable w0 "''g1''" "''shard-00''"]
  by (simp add: example_unavailable_def str_int_503)

section \<open>The submitter\<close>

text \<open>
  Claim C5. Whenever the response to the creation request has a status other than 201, the
  submitter raises \<^verbatim>\<open>JobCreationError\<close>: no job id is returned, and the creation request
  is the only request it has sent.
\<close>

theorem submit_fails_without_created_status:
  assumes "status_code (session (nreq w) (create_request group_key replica_set byte_size)) \<noteq> 201"
  shows "create_ftdc_job session group_key replica_set byte_size w =
           (send (create_request group_key replica_set byte_size) w,
            Inl (Exn JobCreationError
               (''Failed to create FTDC job. Status: ''
                  @ str_int (status_code (session (nreq w) (create_request group_key replica_set byte_size)))
                  @ '', Response: ''
                  @ text' (session (nreq w) (create_request group_key replica_set byte_size)))))"
  using assms by (simp add: create_ftdc_job_def Let_def)

theorem submit_fails_without_created_status_witness:
  "create_ftdc_job example_rejected ''g1'' ''atlas-shard-00'' 10000000 w0 =
     (send (create_request ''g1'' ''atlas-shard-00'' 10000000) w0,
      Inl (Exn JobCreationError
            ''Failed to create FTDC job. Status: 400, Response: Bad Request''))"
  using submit_fails_without_created_status
    [of example_rejected w0 "''g1''" "''atlas-shard-00''" 10000000]
  by (simp add: example_rejected_def str_int_400)

text \<open>
  Claim C8. For every replica set name and every byte size, the one request the submitter
  sends is a POST to the job collection whose payload has \<^verbatim>\<open>resourceType\<close> "REPLICASET",
  \<^verbatim>\<open>resourceName\<close> the given name, \<^verbatim>\<open>redacted\<close> true, \<^verbatim>\<open>sizeRequestedPerFileBytes\<close> the
  given size and \<^verbatim>\<open>logTypes\<close> the one-element list ["FTDC"]; these are the fields that
  \<^verbatim>\<open>LogCollectionJob.create\<close> builds.
\<close>

theorem submitted_job_request:
  "trace (fst (create_ftdc_job session group_key replica_set byte_size w)) =
     trace w @
     [Request (POST (jobs_url group_key)
        [(''resourceType'', JString ''REPLICASET''),
         (''resourceName'', JString replica_set),
         (''redacted'', JBool True),
         (''sizeRequestedPerFileBytes'', JInt byte_size),
         (''logTypes'', JStrings [''FTDC''])]
        [(''Content-Type'', ''application/json; charset=utf-8'')])]
   \<and> LogCollectionJob_create replica_set byte_size =
       \<lparr> resource_type = ''REPLICASET'', resource_name = replica_set, redacted = True,
         size_requested_per_file_bytes = byte_size, log_types = [''FTDC''] \<rparr>"
  by (simp add: create_ftdc_job_def Let_def create_request_def job_payload_def
        LogCollectionJob_create_def send_def split: sum.splits)

theorem submitted_job_request_witness:
  "trace (fst (create_ftdc_job example_rejected ''g1'' ''atlas-shard-00'' 10000000 w0)) =
     [Request (POST (jobs_url ''g1'')
        [(''resourceType'', JString ''REPLICASET''),
         (''resourceName'', JString ''atlas-shard-00''),
         (''redacted'', JBool True),
         (''sizeRequestedPerFileBytes'', JInt 10000000),
         (''logTypes'', JStrings [''FTDC''])]
        [(''Content-Type'', ''application/json; charset=utf-8'')])]"
  using submitted_job_request [of example_rejected "''g1''" "''atlas-shard-00''" 10000000 w0]
  by (simp add: w0_def)

text \<open>
  Claim C9. When the creation response has status 201 and its body has no \<^verbatim>\<open>id\<close> key, the
  submitter raises \<^verbatim>\<open>KeyError\<close>, which is not an instance of \<^verbatim>\<open>FTDCError\<close> and is not
  \<^verbatim>\<open>JobCreationError\<close>.
\<close>

theorem submit_created_without_id:
  assumes "status_code (session (nreq w) (create_request group_key replica_set byte_size)) = 201"
      and "content (session (nreq w) (create_request group_key replica_set byte_size)) ''id'' = None"
  shows "create_ftdc_job session group_key replica_set byte_size w =
           (send (create_request group_key replica_set byte_size) w, Inl (Exn KeyError ''id''))
         \<and> \<not> is_FTDCError (Exn KeyError ''id'')
         \<and> cls (Exn KeyError ''id'') \<noteq> JobCreationError"
  using assms by (simp add: create_ftdc_job_def Let_def dict_subscript_def is_FTDCError_def)

theorem submit_created_without_id_witness:
  "create_ftdc_job example_created_no_id ''g1'' ''atlas-shard-00'' 10000000 w0 =
     (send (create_request ''g1'' ''atlas-shard-00'' 10000000) w0, Inl (Exn KeyError ''id''))
   \<and> \<not> is_FTDCError (Exn KeyError ''id'')"
  using submit_created_without_id
    [of example_created_no_id w0 "''g1''" "''atlas-shard-00''" 10000000]
  by (simp add: example_created_no_id_def)

section \<open>The poller\<close>

lemma nreq_send: "nreq (send r w) = Suc (nreq w)"
  by (simp add: nreq_def send_def)

lemma nreq_print: "nreq (print s w) = nreq w"
  by (simp add: nreq_def print_def)

lemma nreq_after_rounds: "nreq (after_rounds k url j p w) = nreq w + k"
  by (induction k) (simp_all add: nreq_def after_rounds_def poll_round_def)

lemma after_rounds_0: "after_rounds 0 url j p w = w"
  by (simp add: after_rounds_def)

lemma nreq_one_round: "nreq (one_round url j p w) = Suc (nreq w)"
  by (simp add: nreq_def one_round_def poll_round_def)

lemma after_rounds_Suc:
  "after_rounds (Suc k) url j p w = after_rounds k url j p (one_round url j p w)"
  by (simp add: after_rounds_def one_round_def)

lemma loop_in_progress:
  assumes "0 \<le> p" "in_progress (session (nreq w) (GET url))"
  shows "check_job_state_loop session url j p w =
         check_job_state_loop session url j p (one_round url j p w)"
  using assms
  by (subst check_job_state_loop.simps)
     (simp add: in_progress_def job_status_def Let_def sleep_def print_def send_def
        one_round_def poll_round_def)

lemma loop_skip:
  assumes "0 \<le> p" "\<forall>i<k. in_progress (session (nreq w + i) (GET url))"
  shows "check_job_state_loop session url j p w =
         check_job_state_loop session url j p (after_rounds k url j p w)"
  using assms(2)
proof (induction k arbitrary: w)
  case 0
  show ?case by (simp only: after_rounds_0)
next
  case (Suc k)
  have "0 < Suc k" by simp
  with Suc.prems have "in_progress (session (nreq w + 0) (GET url))"
    by blast
  then have first: "in_progress (session (nreq w) (GET url))"
    by simp
  have "\<forall>i<k. in_progress (session (nreq (one_round url j p w) + i) (GET url))"
  proof (intro allI impI)
    fix i assume "i < k"
    then have "Suc i < Suc k" by simp
    with Suc.prems have "in_progress (session (nreq w + Suc i) (GET url))"
      by blast
    then show "in_progress (session (nreq (one_round url j p w) + i) (GET url))"
      by (simp add: nreq_one_round)
  qed
  then have rest: "check_job_state_loop session url j p (one_round url j p w) =
      check_job_state_loop session url j p (after_rounds k url j p (one_round url j p w))"
    by (rule Suc.IH)
  have "check_job_state_loop session url j p w =
      check_job_state_loop session url j p (one_round url j p w)"
    using assms(1) first by (rule loop_in_progress)
  also note rest
  finally show ?case by (simp only: after_rounds_Suc)
qed

lemma JobState_UNIV:
  "(UNIV :: JobState set) = {SUCCESS, FAILURE, IN_PROGRESS, MARKED_FOR_EXPIRY, EXPIRED}"
proof (rule set_eqI)
  fix x :: JobState
  show "x \<in> UNIV \<longleftrightarrow> x \<in> {SUCCESS, FAILURE, IN_PROGRESS, MARKED_FOR_EXPIRY, EXPIRED}"
    by (cases x) simp_all
qed

lemma known_states_range: "known_states = range JobState_value"
  unfolding known_states_def JobState_UNIV
  by (simp only: list.map list.set image_insert image_empty)

lemma observation_cases:
  "in_progress r \<or> job_succeeded r \<or> job_failed r"
  by (auto simp: in_progress_def job_succeeded_def job_failed_def known_states_def)

lemma failed_not_in_progress: "job_failed r \<Longrightarrow> \<not> in_progress r"
  by (auto simp: in_progress_def job_failed_def known_states_def)

lemma succeeded_not_in_progress: "job_succeeded r \<Longrightarrow> \<not> in_progress r"
  by (auto simp: in_progress_def job_succeeded_def)

lemma succeeded_not_failed: "job_succeeded r \<Longrightarrow> \<not> job_failed r"
  by (auto simp: job_failed_def job_succeeded_def known_states_def)

lemma sleeps_of_rounds:
  "filter is_Sleep (concat (replicate k (poll_round url j p))) = replicate k (Sleep p)"
  by (induction k) (simp_all add: poll_round_def)

lemma requests_of_rounds:
  "length (filter is_Request (concat (replicate k (poll_round url j p)))) = k"
  by (induction k) (simp_all add: poll_round_def)

lemma loop_failed:
  assumes "job_failed (session (nreq w) (GET url))"
  shows "\<exists>m. check_job_state_loop session url j p w =
              Some (send (GET url) w, Inl (Exn JobStatusError m))"
  using assms
  by (subst check_job_state_loop.simps)
     (auto simp: job_failed_def job_status_def known_states_def Let_def)

lemma loop_succeeded:
  assumes "job_succeeded (session (nreq w) (GET url))"
  shows "check_job_state_loop session url j p w =
           Some (print (''Job '' @ j @ '' completed successfully!'') (send (GET url) w),
                 Inr (dict_get (content (session (nreq w) (GET url))) ''downloadUrl'' ''''))"
  using assms
  by (subst check_job_state_loop.simps)
     (auto simp: job_succeeded_def job_status_def Let_def)

lemma loop_returns_terminal:
  assumes ret: "check_job_state_loop session url j p w = Some y" and p: "0 \<le> p"
  shows "\<exists>k. (\<forall>i<k. in_progress (session (nreq w + i) (GET url)))
             \<and> \<not> in_progress (session (nreq w + k) (GET url))"
proof -
  have "0 \<le> p \<longrightarrow> (\<exists>k. (\<forall>i<k. in_progress (session (nreq w + i) (GET url)))
             \<and> \<not> in_progress (session (nreq w + k) (GET url)))"
  proof (rule check_job_state_loop.raw_induct
      [where P = "\<lambda>session url j p w y. 0 \<le> p \<longrightarrow>
          (\<exists>k. (\<forall>i<k. in_progress (session (nreq w + i) (GET url)))
             \<and> \<not> in_progress (session (nreq w + k) (GET url)))", OF _ ret], goal_cases)
    case (1 f session url j p w y)
    note IH = 1(1) and body = 1(2)
    show ?case
    proof (intro impI)
      assume p: "0 \<le> p"
      show "\<exists>k. (\<forall>i<k. in_progress (session (nreq w + i) (GET url)))
             \<and> \<not> in_progress (session (nreq w + k) (GET url))"
      proof (cases "in_progress (session (nreq w) (GET url))")
        case True
        with body p have "f session url j p (one_round url j p w) = Some y"
          by (simp add: in_progress_def job_status_def Let_def sleep_def print_def send_def
                one_round_def poll_round_def)
        then have "0 \<le> p \<longrightarrow> (\<exists>k. (\<forall>i<k. in_progress (session (nreq (one_round url j p w) + i) (GET url)))
             \<and> \<not> in_progress (session (nreq (one_round url j p w) + k) (GET url)))"
          by (rule IH)
        with p obtain k where
          k: "\<forall>i<k. in_progress (session (nreq w + Suc i) (GET url))"
             "\<not> in_progress (session (nreq w + Suc k) (GET url))"
          by (auto simp: nreq_one_round)
        have "\<forall>i<Suc k. in_progress (session (nreq w + i) (GET url))"
        proof (intro allI impI)
          fix i assume "i < Suc k"
          then show "in_progress (session (nreq w + i) (GET url))"
            using True k(1) by (cases i) simp_all
        qed
        with k(2) show ?thesis by blast
      next
        case False
        then have "(\<forall>i<0. in_progress (session (nreq w + i) (GET url)))
             \<and> \<not> in_progress (session (nreq w + 0) (GET url))" by simp
        then show ?thesis by blast
      qed
    qed
  qed
  with p show ?thesis by blast
qed

lemma first_of_rounds:
  "\<exists>rest. concat (replicate N (poll_round url j p)) @ Request (GET url) # es = Request (GET url) # rest"
  by (cases N) (simp_all add: poll_round_def)

text \<open>
  Claim C3. With a valid (non-negative) poll interval, the poller raises \<^verbatim>\<open>JobStatusError\<close>
  exactly when, after some number of in-progress observations, it observes a failed query,
  a state \<^verbatim>\<open>FAILURE\<close> or \<^verbatim>\<open>EXPIRED\<close>, or a state outside the five known ones; and when the
  observation that ends the in-progress run has state \<^verbatim>\<open>SUCCESS\<close> or \<^verbatim>\<open>MARKED_FOR_EXPIRY\<close>, it
  returns the \<^verbatim>\<open>downloadUrl\<close> field of that response as it is, the empty string when the
  field is absent.
\<close>

theorem poll_outcome:
  assumes p: "0 \<le> p"
  shows "((\<exists>w' m. check_job_state session g j p w = Some (w', Inl (Exn JobStatusError m)))
            \<longleftrightarrow> (\<exists>k. (\<forall>i<k. in_progress (observed session g j w i))
                      \<and> job_failed (observed session g j w k)))
       \<and> (\<forall>k. (\<forall>i<k. in_progress (observed session g j w i))
               \<and> job_succeeded (observed session g j w k)
            \<longrightarrow> (\<exists>w'. check_job_state session g j p w =
                   Some (w', Inr (dict_get (content (observed session g j w k)) ''downloadUrl'' ''''))))"
proof -
  define url where "url = job_url g j"
  have obs: "observed session g j w i = session (nreq w + i) (GET url)" for i
    by (simp add: observed_def url_def)
  have run: "check_job_state session g j p w = check_job_state_loop session url j p w"
    by (simp add: check_job_state_def url_def)
  have at: "session (nreq (after_rounds k url j p w)) (GET url) = observed session g j w k" for k
    by (simp add: obs nreq_after_rounds)
  have skip: "check_job_state session g j p w =
      check_job_state_loop session url j p (after_rounds k url j p w)"
    if "\<forall>i<k. in_progress (observed session g j w i)" for k
  proof -
    from that have "\<forall>i<k. in_progress (session (nreq w + i) (GET url))"
      by (simp add: obs)
    with p have "check_job_state_loop session url j p w =
        check_job_state_loop session url j p (after_rounds k url j p w)"
      by (rule loop_skip)
    with run show ?thesis by simp
  qed
  have good: "\<exists>w'. check_job_state session g j p w =
        Some (w', Inr (dict_get (content (observed session g j w k)) ''downloadUrl'' ''''))"
    if pend: "\<forall>i<k. in_progress (observed session g j w i)"
      and ok: "job_succeeded (observed session g j w k)" for k
  proof -
    from ok have "job_succeeded (session (nreq (after_rounds k url j p w)) (GET url))"
      by (simp add: at)
    then have "check_job_state_loop session url j p (after_rounds k url j p w) =
        Some (print (''Job '' @ j @ '' completed successfully!'')
                (send (GET url) (after_rounds k url j p w)),
              Inr (dict_get (content (session (nreq (after_rounds k url j p w)) (GET url)))
                     ''downloadUrl'' ''''))"
      by (rule loop_succeeded)
    with skip [OF pend] show ?thesis by (simp add: at)
  qed
  have bad: "\<exists>w' m. check_job_state session g j p w = Some (w', Inl (Exn JobStatusError m))"
    if pend: "\<forall>i<k. in_progress (observed session g j w i)"
      and failed: "job_failed (observed session g j w k)" for k
  proof -
    from failed have "job_failed (session (nreq (after_rounds k url j p w)) (GET url))"
      by (simp add: at)
    then have "\<exists>m. check_job_state_loop session url j p (after_rounds k url j p w) =
        Some (send (GET url) (after_rounds k url j p w), Inl (Exn JobStatusError m))"
      by (rule loop_failed)
    with skip [OF pend] show ?thesis by auto
  qed
  have only: "\<exists>k. (\<forall>i<k. in_progress (observed session g j w i))
                      \<and> job_failed (observed session g j w k)"
    if ret: "check_job_state session g j p w = Some (w', Inl (Exn JobStatusError m))" for w' m
  proof -
    from ret run have "check_job_state_loop session url j p w = Some (w', Inl (Exn JobStatusError m))"
      by simp
    from loop_returns_terminal [OF this p] obtain k where
      k: "\<forall>i<k. in_progress (observed session g j w i)"
         "\<not> in_progress (observed session g j w k)"
      by (auto simp: obs)
    have "job_failed (observed session g j w k)"
    proof (rule ccontr)
      assume "\<not> job_failed (observed session g j w k)"
      with k(2) have "job_succeeded (observed session g j w k)"
        using observation_cases by blast
      from good [OF k(1) this] ret show False by simp
    qed
    with k(1) show ?thesis by blast
  qed
  from good bad only show ?thesis by blast
qed

theorem poll_outcome_witness:
  "\<exists>w'. check_job_state example_status ''g1'' ''job123'' default_poll_interval w0 =
          Some (w', Inr ''https://cloud.mongodb.com/dl'')"
proof -
  have "0 \<le> default_poll_interval" by (simp add: default_poll_interval_def)
  from poll_outcome [OF this, of example_status "''g1''" "''job123''" w0]
  have "(\<forall>i<1. in_progress (observed example_status ''g1'' ''job123'' w0 i))
        \<and> job_succeeded (observed example_status ''g1'' ''job123'' w0 1)
      \<longrightarrow> (\<exists>w'. check_job_state example_status ''g1'' ''job123'' default_poll_interval w0 =
             Some (w', Inr (dict_get (content (observed example_status ''g1'' ''job123'' w0 1))
                              ''downloadUrl'' '''')))"
    by blast
  then show ?thesis
    by (simp add: observed_def nreq_def w0_def example_status_def in_progress_def
          job_succeeded_def job_status_def dict_get_def)
qed

text \<open>
  Claim C4. With a valid (non-negative) poll interval, if the first \<open>N\<close> status queries
  show the job in progress and the next one does not, the poller returns or raises after
  exactly \<open>N + 1\<close> queries and exactly \<open>N\<close> waits, each of the poll interval. The first thing
  it does is a query; after the last query it does nothing but print the success line, and
  on a failed observation it raises \<^verbatim>\<open>JobStatusError\<close> with that query as its last action.
\<close>

theorem poll_in_progress_N_times:
  assumes p: "0 \<le> p"
      and pending: "\<forall>i<N. in_progress (observed session g j w i)"
      and terminal: "\<not> in_progress (observed session g j w N)"
  shows "\<exists>w' r. check_job_state session g j p w = Some (w', r)
      \<and> trace w' = trace w @ concat (replicate N (poll_round (job_url g j) j p))
                     @ Request (GET (job_url g j))
                     # (if job_succeeded (observed session g j w N) then [success_line j] else [])
      \<and> (\<exists>rest. trace w' = trace w @ Request (GET (job_url g j)) # rest)
      \<and> nreq w' = nreq w + N + 1
      \<and> filter is_Sleep (trace w') = filter is_Sleep (trace w) @ replicate N (Sleep p)
      \<and> (job_failed (observed session g j w N) \<longrightarrow> (\<exists>m. r = Inl (Exn JobStatusError m)))"
proof -
  define url where "url = job_url g j"
  define wN where "wN = after_rounds N url j p w"
  define rN where "rN = observed session g j w N"
  have rN: "session (nreq wN) (GET url) = rN"
    by (simp add: wN_def rN_def observed_def url_def nreq_after_rounds)
  have "\<forall>i<N. in_progress (session (nreq w + i) (GET url))"
    using pending by (simp add: observed_def url_def)
  with p have skip: "check_job_state_loop session url j p w = check_job_state_loop session url j p wN"
    unfolding wN_def by (rule loop_skip)
  have trN: "trace wN = trace w @ concat (replicate N (poll_round url j p))"
    by (simp add: wN_def after_rounds_def)
  from terminal have "job_succeeded rN \<or> job_failed rN"
    using observation_cases [of rN] by (simp add: rN_def)
  then show ?thesis
  proof
    assume ok: "job_succeeded rN"
    then have nf: "\<not> job_failed rN" by (rule succeeded_not_failed)
    define w' where "w' = print (''Job '' @ j @ '' completed successfully!'') (send (GET url) wN)"
    from ok have "check_job_state_loop session url j p wN =
        Some (w', Inr (dict_get (content (session (nreq wN) (GET url))) ''downloadUrl'' ''''))"
      unfolding w'_def rN [symmetric] by (rule loop_succeeded)
    with skip have "check_job_state_loop session url j p w =
        Some (w', Inr (dict_get (content rN) ''downloadUrl'' ''''))"
      by (simp add: rN)
    then have run: "check_job_state session g j p w =
        Some (w', Inr (dict_get (content rN) ''downloadUrl'' ''''))"
      by (simp add: check_job_state_def url_def)
    have tr: "trace w' = trace w @ concat (replicate N (poll_round url j p))
                @ Request (GET url) # [success_line j]"
      by (simp add: w'_def print_def send_def trN success_line_def)
    have first: "\<exists>rest. trace w' = trace w @ Request (GET url) # rest"
      using first_of_rounds [of N url j p "[success_line j]"] tr by auto
    have cnt: "nreq w' = nreq w + N + 1"
      by (simp add: nreq_def tr requests_of_rounds success_line_def)
    have sl: "filter is_Sleep (trace w') = filter is_Sleep (trace w) @ replicate N (Sleep p)"
      by (simp add: tr sleeps_of_rounds success_line_def)
    from tr ok have tr': "trace w' = trace w @ concat (replicate N (poll_round url j p))
                @ Request (GET url) # (if job_succeeded rN then [success_line j] else [])"
      by simp
    from run tr' first cnt sl nf show ?thesis
      unfolding rN_def url_def by blast
  next
    assume bad: "job_failed rN"
    then have ns: "\<not> job_succeeded rN" using succeeded_not_failed by blast
    define w' where "w' = send (GET url) wN"
    from bad have "job_failed (session (nreq wN) (GET url))" by (simp add: rN)
    then obtain m where "check_job_state_loop session url j p wN =
        Some (w', Inl (Exn JobStatusError m))"
      unfolding w'_def using loop_failed by blast
    with skip have run: "check_job_state session g j p w = Some (w', Inl (Exn JobStatusError m))"
      by (simp add: check_job_state_def url_def)
    have tr: "trace w' = trace w @ concat (replicate N (poll_round url j p))
                @ Request (GET url) # []"
      by (simp add: w'_def send_def trN)
    have first: "\<exists>rest. trace w' = trace w @ Request (GET url) # rest"
      using first_of_rounds [of N url j p "[]"] tr by auto
    have cnt: "nreq w' = nreq w + N + 1"
      by (simp add: nreq_def tr requests_of_rounds)
    have sl: "filter is_Sleep (trace w') = filter is_Sleep (trace w) @ replicate N (Sleep p)"
      by (simp add: tr sleeps_of_rounds)
    from tr ns have tr': "trace w' = trace w @ concat (replicate N (poll_round url j p))
                @ Request (GET url) # (if job_succeeded rN then [success_line j] else [])"
      by simp
    from run tr' first cnt sl show ?thesis
      unfolding rN_def url_def by blast
  qed
qed

theorem poll_in_progress_N_times_witness:
  "\<exists>w' r. check_job_state example_status ''g1'' ''job123'' default_poll_interval w0 = Some (w', r)
      \<and> nreq w' = 2
      \<and> filter is_Sleep (trace w') = [Sleep default_poll_interval]"
proof -
  have "0 \<le> default_poll_interval" by (simp add: default_poll_interval_def)
  moreover have "\<forall>i<1. in_progress (observed example_status ''g1'' ''job123'' w0 i)"
    by (simp add: observed_def nreq_def w0_def example_status_def in_progress_def
          job_status_def dict_get_def)
  moreover have "\<not> in_progress (observed example_status ''g1'' ''job123'' w0 1)"
    by (simp add: observed_def nreq_def w0_def example_status_def in_progress_def
          job_status_def dict_get_def)
  ultimately obtain w' r where
    "check_job_state example_status ''g1'' ''job123'' default_poll_interval w0 = Some (w', r)"
    "nreq w' = nreq w0 + 1 + 1"
    "filter is_Sleep (trace w') = filter is_Sleep (trace w0) @ replicate 1 (Sleep default_poll_interval)"
    using poll_in_progress_N_times
      [where p = default_poll_interval and N = 1 and session = example_status and g = "''g1''"
         and j = "''job123''" and w = w0]
    by blast
  then show ?thesis
    by (simp add: nreq_def w0_def)
qed

section \<open>The downloader\<close>

lemma fold_f_write:
  "files w p = Some b \<Longrightarrow>
     fold (f_write p) chunks w = w\<lparr>files := (files w)(p \<mapsto> b @ concat chunks)\<rparr>"
proof (induction chunks arbitrary: w b)
  case Nil
  then have "(files w)(p \<mapsto> b) = files w" by (simp add: fun_upd_idem)
  then show ?case by simp
next
  case (Cons c cs)
  have step: "f_write p c w = w\<lparr>files := (files w)(p \<mapsto> b @ c)\<rparr>"
    using Cons.prems by (simp add: f_write_def file_bytes_def)
  then have "files (f_write p c w) p = Some (b @ c)"
    by simp
  then have "fold (f_write p) cs (f_write p c w) =
      (f_write p c w)\<lparr>files := (files (f_write p c w))(p \<mapsto> (b @ c) @ concat cs)\<rparr>"
    by (rule Cons.IH)
  also have "\<dots> = w\<lparr>files := (files w)(p \<mapsto> b @ concat (c # cs))\<rparr>"
    by (simp add: step)
  finally show ?case by (simp only: fold_simps)
qed

lemma files_send: "files (send r w) = files w"
  by (simp add: send_def)

lemma files_print: "files (print s w) = files w"
  by (simp add: print_def)

lemma files_fold_open:
  "files (fold (f_write p) chunks (open_wb p w)) = (files w)(p \<mapsto> concat chunks)"
proof -
  have "files (open_wb p w) p = Some []"
    by (simp add: open_wb_def)
  then have "fold (f_write p) chunks (open_wb p w) =
      (open_wb p w)\<lparr>files := (files (open_wb p w))(p \<mapsto> [] @ concat chunks)\<rparr>"
    by (rule fold_f_write)
  then show ?thesis by (simp add: open_wb_def)
qed

text \<open>
  Claim C6. Whenever the download endpoint answers with a status other than 200, the
  downloader raises \<^verbatim>\<open>DownloadError\<close> having done nothing but send the request: the files
  on disk are the ones that were there before, so no file is created and no byte written.
\<close>

theorem download_fails_before_writing:
  assumes "status_code (session (nreq w) (GET_stream (download_url group_key job_id))) \<noteq> 200"
  shows "download_ftdc_data session group_key job_id replica_set output_dir w =
           (send (GET_stream (download_url group_key job_id)) w,
            Inl (Exn DownloadError
               (''Failed to download FTDC data. Status: ''
                  @ str_int (status_code (session (nreq w) (GET_stream (download_url group_key job_id))))
                  @ '', URL: '' @ download_url group_key job_id)))
         \<and> files (fst (download_ftdc_data session group_key job_id replica_set output_dir w)) = files w"
  using assms by (simp add: download_ftdc_data_def Let_def send_def)

theorem download_fails_before_writing_witness:
  "download_ftdc_data example_denied ''g1'' ''job123'' ''atlas-shard-00'' (Path ''/tmp'') w0 =
     (send (GET_stream (download_url ''g1'' ''job123'')) w0,
      Inl (Exn DownloadError
            (''Failed to download FTDC data. Status: 404, URL: '' @ download_url ''g1'' ''job123'')))
   \<and> files (fst (download_ftdc_data example_denied ''g1'' ''job123'' ''atlas-shard-00''
                    (Path ''/tmp'') w0)) = Map.empty"
  using download_fails_before_writing
    [of example_denied w0 "''g1''" "''job123''" "''atlas-shard-00''" "Path ''/tmp''"]
  by (simp add: example_denied_def str_int_404 w0_def send_def)

text \<open>
  Claim C7. Whenever the download endpoint answers with status 200, the downloader
  returns the path \<^verbatim>\<open>output_dir / "ftdc_data_<replica_set>_job_<job_id>.tar.gz"\<close>, and
  afterwards the file at that path holds the chunks of the response body in order; every
  other file is as it was.
\<close>

theorem download_writes_named_file:
  assumes "status_code (session (nreq w) (GET_stream (download_url group_key job_id))) = 200"
  shows "snd (download_ftdc_data session group_key job_id replica_set output_dir w) =
           Inr (Div output_dir (''ftdc_data_'' @ replica_set @ ''_job_'' @ job_id @ ''.tar.gz''))
         \<and> files (fst (download_ftdc_data session group_key job_id replica_set output_dir w)) =
             (files w)(Div output_dir (''ftdc_data_'' @ replica_set @ ''_job_'' @ job_id @ ''.tar.gz'')
                \<mapsto> concat (content (session (nreq w) (GET_stream (download_url group_key job_id)))))"
  using assms
  by (simp add: download_ftdc_data_def Let_def files_print files_send files_fold_open)

theorem download_writes_named_file_witness:
  "snd (download_ftdc_data example_stream ''g1'' ''job123'' ''atlas-shard-00'' (Path ''/tmp'') w0) =
     Inr (Div (Path ''/tmp'') ''ftdc_data_atlas-shard-00_job_job123.tar.gz'')
   \<and> files (fst (download_ftdc_data example_stream ''g1'' ''job123'' ''atlas-shard-00''
                    (Path ''/tmp'') w0)) =
       [Div (Path ''/tmp'') ''ftdc_data_atlas-shard-00_job_job123.tar.gz'' \<mapsto> [31, 139, 8]]"
  using download_writes_named_file
    [of example_stream w0 "''g1''" "''job123''" "''atlas-shard-00''" "Path ''/tmp''"]
  by (simp add: example_stream_def w0_def)

end
